theory Spec2Isabelle
  imports Complex_Main "HOL-Library.AList"
begin

section \<open>Booking routes of TravelMate: data model\<close>

text \<open>
  A shallow embedding of \<^verbatim>\<open>backend/routes/bookingRoutes.js\<close>.  Every route handler
  is a function from the database (the three collections the handlers touch) and the
  request to the HTTP response and the database after the request.  A handler's
  \<^verbatim>\<open>return res.status(..).json(..)\<close> is a branch returning the unchanged database;
  an exception caught by the handler's \<^verbatim>\<open>try/catch\<close> is the response 500 together
  with whatever had been saved before the throw.

  Conventions of the embedding:
  \<^item> Mongo object ids are strings, compared as the code compares them
    (\<^verbatim>\<open>x.toString() === req.user.id\<close>).
  \<^item> Dates are integers, milliseconds since the epoch; every \<^verbatim>\<open>new Date()\<close> of one
    request reads the same clock value \<open>now\<close>.
  \<^item> Seat counts are JSON numbers holding integers (\<open>int\<close>); prices and amounts are
    JavaScript numbers, modelled as exact rationals (\<open>rat\<close>), so rounding of doubles
    is not part of the model.
  \<^item> The \<^verbatim>\<open>rating\<close> of a rating request is the JSON value the body carries, a
    number or a string (\<open>json_value\<close>): the validator accepts both and converts
    neither.  A user's average is a JavaScript number that the handler computes from it
    (\<open>js_number\<close>): \<open>Some q\<close> is the number \<open>q\<close>, \<open>None\<close> is a value that is not
    an exact rational the model can name (\<^verbatim>\<open>NaN\<close>, an infinity, or a number whose
    digits depend on the rounding of doubles).
  \<^item> A field that may be \<^verbatim>\<open>undefined\<close> is an \<open>option\<close>.
\<close>

type_synonym object_id = string
type_synonym date = int

datatype json_value = JNumber int | JString string

type_synonym js_number = "rat option"

record point =
  location :: string
  time :: string

record otp_challenge =
  code :: string
  generatedAt :: date
  verified :: bool

record rating_entry =
  rating :: json_value
  review :: "string option"

record contact =
  name :: string
  phone :: string
  sharedAt :: date

record booking =
  trip :: object_id
  passenger :: object_id
  seatsBooked :: int
  totalAmount :: rat
  pickupPoint :: point
  dropPoint :: point
  paymentMethod :: string
  passengerDetails :: "string list"
  specialRequests :: "string option"
  paymentStatus :: string
  bookingStatus :: string
  transactionId :: "string option"
  otp :: "otp_challenge option"
  cancellationReason :: "string option"
  cancelledBy :: "object_id option"
  cancelledAt :: "date option"
  refundAmount :: "rat option"
  forDriver :: "rating_entry option"
  forPassenger :: "rating_entry option"
  driverContact :: "contact option"
  passengerContact :: "contact option"

record passenger_entry =
  user :: object_id
  entry_seatsBooked :: int
  bookingDate :: date

record trip_doc =
  driver :: object_id
  status :: string
  pricePerSeat :: rat
  totalSeats :: int
  bookedSeats :: int
  totalEarnings :: rat
  passengers :: "passenger_entry list"

record user_doc =
  firstName :: string
  lastName :: string
  user_phone :: string
  rating_average :: js_number
  rating_count :: int

record db =
  bookings :: "(object_id \<times> booking) list"
  trips :: "(object_id \<times> trip_doc) list"
  users :: "(object_id \<times> user_doc) list"

text \<open>\<^verbatim>\<open>Model.findById(id)\<close> and \<^verbatim>\<open>doc.save()\<close> on a collection.\<close>

definition findById :: "(object_id \<times> 'a) list \<Rightarrow> object_id \<Rightarrow> 'a option" where
  "findById coll i = map_of coll i"

definition save :: "(object_id \<times> 'a) list \<Rightarrow> object_id \<Rightarrow> 'a \<Rightarrow> (object_id \<times> 'a) list" where
  "save coll i d = AList.update i d coll"

datatype response =
    ValidationErrors
  | Message nat string
  | BookingCreated "booking option" string
  | PaymentUpdated booking
  | BookingCancelled booking rat
  | OtpVerified booking
  | RatingSubmitted booking

section \<open>OTP verification\<close>

text \<open>
  \<^verbatim>\<open>router.post('/:id/verify-otp')\<close>, lines 225-269.  The validator
  \<^verbatim>\<open>isLength({min: 4, max: 4})\<close> is the only check on the submitted string.
  \<^verbatim>\<open>otpAge\<close> is the clock difference in milliseconds divided by \<^verbatim>\<open>1000 * 60\<close>.
  A booking whose \<^verbatim>\<open>otp.code\<close> is undefined differs from every submitted string.
\<close>

definition otpAge :: "date \<Rightarrow> otp_challenge \<Rightarrow> rat" where
  "otpAge now c = of_int (now - generatedAt c) / (1000 * 60)"

definition verify_otp :: "date \<Rightarrow> db \<Rightarrow> object_id \<Rightarrow> object_id \<Rightarrow> string \<Rightarrow> response \<times> db" where
  "verify_otp now s uid bid submitted =
    (if length submitted \<noteq> 4 then (ValidationErrors, s)
     else case findById (bookings s) bid of
       None \<Rightarrow> (Message 404 ''Booking not found'', s)
     | Some b \<Rightarrow>
        if passenger b \<noteq> uid \<and>
           (case findById (trips s) (trip b) of None \<Rightarrow> True | Some t \<Rightarrow> driver t \<noteq> uid)
        then (Message 403 ''Not authorized to verify this booking'', s)
        else case otp b of
          None \<Rightarrow> (Message 400 ''Invalid OTP'', s)
        | Some c \<Rightarrow>
           if code c \<noteq> submitted then (Message 400 ''Invalid OTP'', s)
           else if otpAge now c > 30 then (Message 400 ''OTP has expired'', s)
           else
             let b' = b\<lparr>otp := Some (c\<lparr>verified := True\<rparr>), bookingStatus := ''confirmed''\<rparr>
             in (OtpVerified b', s\<lparr>bookings := save (bookings s) bid b'\<rparr>))"

section \<open>Request validation\<close>

text \<open>
  The express-validator chains in front of the handlers.  \<^verbatim>\<open>trim()\<close> strips
  white space (here: the ASCII white space) at both ends and replaces the field in the
  request body; \<^verbatim>\<open>isMongoId()\<close> accepts 24 hexadecimal characters; the time pattern
  is \<^verbatim>\<open>/^([01]?[0-9]|2[0-3]):[0-5][0-9]$/\<close>.  The validators do not convert a field.
  The model takes \<^verbatim>\<open>seatsBooked\<close> as a JSON number: a string never equals
  \<^verbatim>\<open>passengerDetails.length\<close> on line 49, so no booking is created from one.
\<close>

definition is_space :: "char \<Rightarrow> bool" where
  "is_space c = (c \<in> set [CHR '' '', CHR 0x09, CHR 0x0A, CHR 0x0B, CHR 0x0C, CHR 0x0D])"

definition trim :: "string \<Rightarrow> string" where
  "trim s = rev (dropWhile is_space (rev (dropWhile is_space s)))"

definition is_digit :: "char \<Rightarrow> bool" where
  "is_digit c = (c \<in> set ''0123456789'')"

definition isMongoId :: "string \<Rightarrow> bool" where
  "isMongoId s = (length s = 24 \<and> list_all (\<lambda>c. c \<in> set ''0123456789abcdefABCDEF'') s)"

fun valid_time :: "string \<Rightarrow> bool" where
  "valid_time [h, c, m1, m2] =
     (is_digit h \<and> c = CHR '':'' \<and> m1 \<in> set ''012345'' \<and> is_digit m2)"
| "valid_time [h1, h2, c, m1, m2] =
     (((h1 \<in> set ''01'' \<and> is_digit h2) \<or> (h1 = CHR ''2'' \<and> h2 \<in> set ''0123''))
      \<and> c = CHR '':'' \<and> m1 \<in> set ''012345'' \<and> is_digit m2)"
| "valid_time _ = False"

record create_request =
  req_tripId :: object_id
  req_seatsBooked :: int
  req_pickupPoint :: point
  req_dropPoint :: point
  req_paymentMethod :: string
  req_passengerDetails :: "string list"
  req_specialRequests :: "string option"

definition valid_create :: "create_request \<Rightarrow> bool" where
  "valid_create r =
    (isMongoId (req_tripId r)
     \<and> 1 \<le> req_seatsBooked r \<and> req_seatsBooked r \<le> 7
     \<and> 1 \<le> length (trim (location (req_pickupPoint r)))
     \<and> valid_time (time (req_pickupPoint r))
     \<and> 1 \<le> length (trim (location (req_dropPoint r)))
     \<and> valid_time (time (req_dropPoint r))
     \<and> req_paymentMethod r \<in> set [''cash'', ''online'', ''upi'', ''card'']
     \<and> 1 \<le> length (req_passengerDetails r))"

section \<open>Booking creation\<close>

text \<open>
  Modelled from the spec: \<^verbatim>\<open>trip.hasAvailableSeats(n)\<close> is a method of the Trip model,
  which is not among the sources.  The spec gives it as
  \<^verbatim>\<open>totalSeats - bookedSeats >= seatsBooked\<close>.
\<close>

definition hasAvailableSeats :: "trip_doc \<Rightarrow> int \<Rightarrow> bool" where
  "hasAvailableSeats t n = (totalSeats t - bookedSeats t \<ge> n)"

text \<open>
  Modelled from the spec: \<^verbatim>\<open>new Booking({...})\<close> fills the fields the handler passes;
  the schema of the Booking model is not among the sources.  The spec has a booking
  start as \<^verbatim>\<open>pending\<close> (both \<^verbatim>\<open>bookingStatus\<close> and \<^verbatim>\<open>paymentStatus\<close>), and the
  cancellation, rating and contact fields populated only later.
\<close>

definition new_Booking ::
  "object_id \<Rightarrow> object_id \<Rightarrow> int \<Rightarrow> rat \<Rightarrow> point \<Rightarrow> point \<Rightarrow> string \<Rightarrow> string list
     \<Rightarrow> string option \<Rightarrow> booking" where
  "new_Booking tid uid n amount pickup dropp method details special =
    \<lparr>trip = tid, passenger = uid, seatsBooked = n, totalAmount = amount,
     pickupPoint = pickup, dropPoint = dropp, paymentMethod = method,
     passengerDetails = details, specialRequests = special,
     paymentStatus = ''pending'', bookingStatus = ''pending'', transactionId = None,
     otp = None, cancellationReason = None, cancelledBy = None, cancelledAt = None,
     refundAmount = None, forDriver = None, forPassenger = None,
     driverContact = None, passengerContact = None\<rparr>"

text \<open>
  Modelled from the spec: \<^verbatim>\<open>booking.generateOTP()\<close> is a method of the Booking model,
  which is not among the sources.  The spec has it generate a 4-digit code with
  \<^verbatim>\<open>generatedAt = now\<close> and \<^verbatim>\<open>verified = false\<close>, store it on the booking and return
  the code.  The random choice is the argument \<open>r\<close>.
\<close>

definition digit_char :: "nat \<Rightarrow> char" where
  "digit_char d = ''0123456789'' ! (d mod 10)"

definition four_digits :: "nat \<Rightarrow> string" where
  "four_digits n =
    [digit_char (n div 1000), digit_char (n div 100), digit_char (n div 10), digit_char n]"

definition generateOTP :: "nat \<Rightarrow> date \<Rightarrow> booking \<Rightarrow> string \<times> booking" where
  "generateOTP r now b =
    (let c = four_digits (1000 + r mod 9000)
     in (c, b\<lparr>otp := Some \<lparr>code = c, generatedAt = now, verified = False\<rparr>\<rparr>))"

text \<open>
  \<^verbatim>\<open>router.post('/')\<close>, lines 9-98.  \<open>bid\<close> is the \<^verbatim>\<open>_id\<close> the new document gets,
  \<open>r\<close> the random choice of the OTP.
\<close>

definition create_booking ::
  "date \<Rightarrow> object_id \<Rightarrow> nat \<Rightarrow> db \<Rightarrow> object_id \<Rightarrow> create_request \<Rightarrow> response \<times> db" where
  "create_booking now bid r s uid req =
    (if \<not> valid_create req then (ValidationErrors, s)
     else case findById (trips s) (req_tripId req) of
       None \<Rightarrow> (Message 404 ''Trip not found'', s)
     | Some t \<Rightarrow>
        if status t \<noteq> ''active'' then (Message 400 ''Trip is not available for booking'', s)
        else if driver t = uid then (Message 400 ''You cannot book your own trip'', s)
        else if \<not> hasAvailableSeats t (req_seatsBooked req)
          then (Message 400 ''Not enough seats available'', s)
        else if int (length (req_passengerDetails req)) \<noteq> req_seatsBooked req
          then (Message 400 ''Passenger details count must match seats booked'', s)
        else
          let amount = pricePerSeat t * of_int (req_seatsBooked req);
              b = new_Booking (req_tripId req) uid (req_seatsBooked req) amount
                    ((req_pickupPoint req)\<lparr>location := trim (location (req_pickupPoint req))\<rparr>)
                    ((req_dropPoint req)\<lparr>location := trim (location (req_dropPoint req))\<rparr>)
                    (req_paymentMethod req) (req_passengerDetails req)
                    (req_specialRequests req);
              s1 = s\<lparr>bookings := save (bookings s) bid b\<rparr>;
              t' = t\<lparr>bookedSeats := bookedSeats t + req_seatsBooked req,
                     passengers := passengers t @
                       [\<lparr>user = uid, entry_seatsBooked = req_seatsBooked req,
                         bookingDate = now\<rparr>],
                     totalEarnings := totalEarnings t + amount\<rparr>;
              s2 = s1\<lparr>trips := save (trips s1) (req_tripId req) t'\<rparr>;
              (c, b') = generateOTP r now b;
              s3 = s2\<lparr>bookings := save (bookings s2) bid b'\<rparr>
          in (BookingCreated (findById (bookings s3) bid) c, s3))"

section \<open>Payment status update\<close>

text \<open>
  \<^verbatim>\<open>router.patch('/:id/payment')\<close>, lines 124-170.  \<^verbatim>\<open>transactionId\<close> is optional;
  when present it is trimmed and must be non-empty.  \<^verbatim>\<open>releaseSeats\<close> is the block
  the handler runs on the trip of a failed payment (lines 157-159), which the
  cancellation handler repeats (lines 208-210).
\<close>

definition releaseSeats :: "booking \<Rightarrow> object_id \<Rightarrow> trip_doc \<Rightarrow> trip_doc" where
  "releaseSeats b uid t =
    t\<lparr>bookedSeats := bookedSeats t - seatsBooked b,
      totalEarnings := totalEarnings t - totalAmount b,
      passengers := filter (\<lambda>p. user p \<noteq> uid) (passengers t)\<rparr>"

definition valid_payment :: "string \<Rightarrow> string option \<Rightarrow> bool" where
  "valid_payment ps tx =
    (ps \<in> set [''paid'', ''failed'']
     \<and> (case tx of None \<Rightarrow> True | Some x \<Rightarrow> 1 \<le> length (trim x)))"

definition truthy_string :: "string option \<Rightarrow> bool" where
  "truthy_string x = (case x of None \<Rightarrow> False | Some v \<Rightarrow> v \<noteq> [])"

definition update_payment ::
  "db \<Rightarrow> object_id \<Rightarrow> object_id \<Rightarrow> string \<Rightarrow> string option \<Rightarrow> response \<times> db" where
  "update_payment s uid bid ps tx0 =
    (if \<not> valid_payment ps tx0 then (ValidationErrors, s)
     else
       let tx = map_option trim tx0 in
       case findById (bookings s) bid of
         None \<Rightarrow> (Message 404 ''Booking not found'', s)
       | Some b0 \<Rightarrow>
          if passenger b0 \<noteq> uid
            then (Message 403 ''Not authorized to update this booking'', s)
          else
            let b1 = b0\<lparr>paymentStatus := ps\<rparr> in
            if ps = ''paid'' \<and> truthy_string tx then
              let b2 = b1\<lparr>transactionId := tx, bookingStatus := ''confirmed''\<rparr>
              in (PaymentUpdated b2, s\<lparr>bookings := save (bookings s) bid b2\<rparr>)
            else if ps = ''failed'' then
              let b2 = b1\<lparr>bookingStatus := ''cancelled''\<rparr>;
                  s1 = (case findById (trips s) (trip b2) of
                          None \<Rightarrow> s
                        | Some t \<Rightarrow>
                            s\<lparr>trips := save (trips s) (trip b2) (releaseSeats b2 uid t)\<rparr>)
              in (PaymentUpdated b2, s1\<lparr>bookings := save (bookings s1) bid b2\<rparr>)
            else (PaymentUpdated b1, s\<lparr>bookings := save (bookings s) bid b1\<rparr>))"

section \<open>Cancellation\<close>

text \<open>
  \<^verbatim>\<open>router.patch('/:id/cancel')\<close>, lines 173-222.  The handler never reads
  \<^verbatim>\<open>validationResult\<close>, so the length bound on \<^verbatim>\<open>reason\<close> is not enforced.
  \<^verbatim>\<open>booking.calculateRefund()\<close> is a method of the Booking model, which is not among
  the sources; the spec leaves it a pluggable pure function, so it is the parameter
  \<open>calculateRefund\<close>, applied to the clock, the booking and its populated trip.
  The booking is loaded with \<^verbatim>\<open>populate('trip')\<close>: when the trip document is gone,
  \<^verbatim>\<open>booking.trip\<close> is null and \<^verbatim>\<open>booking.trip._id\<close> on line 206 throws after the
  booking has been saved, which the \<^verbatim>\<open>catch\<close> answers with 500.
\<close>

type_synonym refund_policy = "date \<Rightarrow> booking \<Rightarrow> trip_doc option \<Rightarrow> rat"

definition cancel_booking ::
  "refund_policy \<Rightarrow> date \<Rightarrow> db \<Rightarrow> object_id \<Rightarrow> object_id \<Rightarrow> string option
     \<Rightarrow> response \<times> db" where
  "cancel_booking calculateRefund now s uid bid reason =
    (case findById (bookings s) bid of
       None \<Rightarrow> (Message 404 ''Booking not found'', s)
     | Some b \<Rightarrow>
        if passenger b \<noteq> uid
          then (Message 403 ''Not authorized to cancel this booking'', s)
        else if bookingStatus b = ''cancelled''
          then (Message 400 ''Booking is already cancelled'', s)
        else
          let populated = findById (trips s) (trip b);
              refund = calculateRefund now b populated;
              b' = b\<lparr>bookingStatus := ''cancelled'', cancellationReason := reason,
                     cancelledBy := Some uid, cancelledAt := Some now,
                     refundAmount := Some refund\<rparr>;
              s1 = s\<lparr>bookings := save (bookings s) bid b'\<rparr>
          in case populated of
               None \<Rightarrow> (Message 500 ''Server error'', s1)
             | Some _ \<Rightarrow>
                (case findById (trips s1) (trip b') of
                   None \<Rightarrow> (BookingCancelled b' refund, s1)
                 | Some t \<Rightarrow>
                    (BookingCancelled b' refund,
                     s1\<lparr>trips := save (trips s1) (trip b') (releaseSeats b' uid t)\<rparr>)))"

section \<open>Rating\<close>

text \<open>
  \<^verbatim>\<open>router.post('/:id/rate')\<close>, lines 323-395.

  Line 324 validates the rating with \<^verbatim>\<open>isInt({min: 1, max: 5})\<close> and no \<^verbatim>\<open>toInt()\<close>.
  The validator tests the string form of the value against \<^verbatim>\<open>/^[-+]?[0-9]+$/\<close> and
  compares its number with the bounds, so it accepts the number \<^verbatim>\<open>5\<close> and the string
  \<^verbatim>\<open>"5"\<close> alike (also \<^verbatim>\<open>"05"\<close> and \<^verbatim>\<open>"+5"\<close>), and the handler computes with the value
  as it came.  \<open>int_literal\<close> reads such a string.
\<close>

definition digit_val :: "char \<Rightarrow> nat" where
  "digit_val c = length (takeWhile (\<lambda>d. d \<noteq> c) ''0123456789'')"

fun digits_value :: "nat \<Rightarrow> string \<Rightarrow> nat option" where
  "digits_value acc [] = Some acc"
| "digits_value acc (c # cs) =
     (if is_digit c then digits_value (10 * acc + digit_val c) cs else None)"

definition decimal :: "string \<Rightarrow> nat option" where
  "decimal s = (if s = [] then None else digits_value 0 s)"

definition int_literal :: "string \<Rightarrow> int option" where
  "int_literal s =
    (case s of
       [] \<Rightarrow> None
     | c # cs \<Rightarrow>
        if c = CHR ''+'' then map_option int (decimal cs)
        else if c = CHR ''-'' then map_option (\<lambda>n. - int n) (decimal cs)
        else map_option int (decimal s))"

definition isInt_1_5 :: "json_value \<Rightarrow> bool" where
  "isInt_1_5 r =
    (case r of
       JNumber n \<Rightarrow> 1 \<le> n \<and> n \<le> 5
     | JString s \<Rightarrow> (case int_literal s of None \<Rightarrow> False | Some v \<Rightarrow> 1 \<le> v \<and> v \<le> 5))"

definition valid_rate :: "json_value \<Rightarrow> string option \<Rightarrow> bool" where
  "valid_rate r rv =
    (isInt_1_5 r \<and> (case rv of None \<Rightarrow> True | Some x \<Rightarrow> length x \<le> 500))"

text \<open>
  \<^verbatim>\<open>rated\<close> is the truthiness test \<^verbatim>\<open>if (booking.rating.forDriver.rating)\<close> on the
  stored value: a number other than zero, or a string that is not empty.  The handler
  stores the rating as it came (lines 353 and 372); a schema that casts it to a number
  would store the number the string denotes, which is truthy as well.
\<close>

definition truthy :: "json_value \<Rightarrow> bool" where
  "truthy r = (case r of JNumber n \<Rightarrow> n \<noteq> 0 | JString s \<Rightarrow> s \<noteq> [])"

definition rated :: "rating_entry option \<Rightarrow> bool" where
  "rated e = (case e of None \<Rightarrow> False | Some x \<Rightarrow> truthy (rating x))"

text \<open>
  The arithmetic of lines 360 and 379,
  \<^verbatim>\<open>((average * count) + rating) / newCount\<close>, as JavaScript evaluates it.
  \<^verbatim>\<open>*\<close> and \<^verbatim>\<open>/\<close> work on numbers.  \<^verbatim>\<open>+\<close> adds when the rating is a number; when
  the rating is a string it converts the product to a string and concatenates, and the
  division converts the concatenation back to a number.

  \<open>number_to_string\<close> gives the string of an integer below \<open>10^21\<close> in absolute value,
  its decimal digits; the string of any other number depends on the rounding of
  doubles and is left open (\<open>None\<close>).  \<open>string_to_number\<close> gives the number of a signed
  run of digits; any other string the handler can build here (digits, a sign, digits) is
  \<^verbatim>\<open>NaN\<close>.
\<close>

fun digits_of :: "nat \<Rightarrow> string" where
  "digits_of n = (if n < 10 then [digit_char n] else digits_of (n div 10) @ [digit_char n])"

declare digits_of.simps [simp del]

definition number_to_string :: "rat \<Rightarrow> string option" where
  "number_to_string q =
    (if of_int \<lfloor>q\<rfloor> = q \<and> \<bar>q\<bar> < 10 ^ 21
     then Some ((if q < 0 then ''-'' else []) @ digits_of (nat \<bar>\<lfloor>q\<rfloor>\<bar>))
     else None)"

definition string_to_number :: "string \<Rightarrow> js_number" where
  "string_to_number s = map_option of_int (int_literal s)"

datatype js_sum = SumNumber js_number | SumString "string option"

definition js_times :: "js_number \<Rightarrow> js_number \<Rightarrow> js_number" where
  "js_times a b = (case (a, b) of (Some x, Some y) \<Rightarrow> Some (x * y) | _ \<Rightarrow> None)"

definition js_plus :: "js_number \<Rightarrow> json_value \<Rightarrow> js_sum" where
  "js_plus a r =
    (case r of
       JNumber n \<Rightarrow> SumNumber (map_option (\<lambda>x. x + of_int n) a)
     | JString s \<Rightarrow>
        SumString (case a of
                     None \<Rightarrow> None
                   | Some x \<Rightarrow> map_option (\<lambda>str. str @ s) (number_to_string x)))"

definition js_divide :: "js_sum \<Rightarrow> js_number \<Rightarrow> js_number" where
  "js_divide x c =
    (case (case x of
             SumNumber a \<Rightarrow> a
           | SumString None \<Rightarrow> None
           | SumString (Some str) \<Rightarrow> string_to_number str, c) of
       (Some p, Some q) \<Rightarrow> if q = 0 then None else Some (p / q)
     | _ \<Rightarrow> None)"

text \<open>
  \<^verbatim>\<open>add_rating\<close> is the update of the rated user's running average (lines 359-362 and
  378-381).  As in the cancellation handler, a booking whose trip is gone makes
  \<^verbatim>\<open>booking.trip._id\<close> throw (line 344).
\<close>

definition add_rating :: "json_value \<Rightarrow> user_doc \<Rightarrow> user_doc" where
  "add_rating r u =
    (let newCount = rating_count u + 1;
         newAverage =
           js_divide
             (js_plus (js_times (rating_average u) (Some (of_int (rating_count u)))) r)
             (Some (of_int newCount))
     in u\<lparr>rating_average := newAverage, rating_count := newCount\<rparr>)"

definition rate_user :: "db \<Rightarrow> object_id \<Rightarrow> json_value \<Rightarrow> db" where
  "rate_user s target r =
    (case findById (users s) target of
       None \<Rightarrow> s
     | Some u \<Rightarrow> s\<lparr>users := save (users s) target (add_rating r u)\<rparr>)"

definition rate_booking ::
  "db \<Rightarrow> object_id \<Rightarrow> object_id \<Rightarrow> json_value \<Rightarrow> string option \<Rightarrow> response \<times> db" where
  "rate_booking s uid bid n rv =
    (if \<not> valid_rate n rv then (ValidationErrors, s)
     else case findById (bookings s) bid of
       None \<Rightarrow> (Message 404 ''Booking not found'', s)
     | Some b \<Rightarrow>
        if bookingStatus b \<noteq> ''completed''
          then (Message 400 ''Can only rate completed bookings'', s)
        else case findById (trips s) (trip b) of
          None \<Rightarrow> (Message 500 ''Server error'', s)
        | Some t \<Rightarrow>
           if passenger b = uid then
             (if rated (forDriver b)
                then (Message 400 ''You have already rated this driver'', s)
              else
                let b' = b\<lparr>forDriver := Some \<lparr>rating = n, review = rv\<rparr>\<rparr>;
                    s1 = rate_user s (driver t) n
                in (RatingSubmitted b', s1\<lparr>bookings := save (bookings s1) bid b'\<rparr>))
           else if driver t = uid then
             (if rated (forPassenger b)
                then (Message 400 ''You have already rated this passenger'', s)
              else
                let b' = b\<lparr>forPassenger := Some \<lparr>rating = n, review = rv\<rparr>\<rparr>;
                    s1 = rate_user s (passenger b) n
                in (RatingSubmitted b', s1\<lparr>bookings := save (bookings s1) bid b'\<rparr>))
           else (Message 403 ''Not authorized to rate this booking'', s))"

section \<open>HTTP status of a response\<close>

fun status_of :: "response \<Rightarrow> nat" where
  "status_of ValidationErrors = 400"
| "status_of (Message n _) = n"
| "status_of (BookingCreated _ _) = 201"
| "status_of (PaymentUpdated _) = 200"
| "status_of (BookingCancelled _ _) = 200"
| "status_of (OtpVerified _) = 200"
| "status_of (RatingSubmitted _) = 200"

section \<open>A small database to run the handlers on\<close>

text \<open>
  One active trip with four seats at 100 per seat, its driver (average 4.0 over two
  ratings so far) and a passenger.  \<open>ex_db1\<close> is the database after the passenger has
  booked two seats at time \<open>1000000\<close>; the random choice \<open>3821\<close> makes the OTP
  \<^verbatim>\<open>4821\<close>.  In \<open>ex_db2\<close> the trip has taken place and the booking is completed.
  \<open>ex_db_cancelled\<close> and \<open>ex_db_released_twice\<close> are what the handlers make of
  \<open>ex_db1\<close> when the passenger cancels and then reports a failed payment.
\<close>

definition ex_trip_id :: object_id where "ex_trip_id = ''64b0000000000000000000a1''"
definition ex_driver_id :: object_id where "ex_driver_id = ''64b0000000000000000000d1''"
definition ex_passenger_id :: object_id where "ex_passenger_id = ''64b0000000000000000000c1''"
definition ex_booking_id :: object_id where "ex_booking_id = ''64b0000000000000000000b1''"

definition ex_trip :: trip_doc where
  "ex_trip = \<lparr>driver = ex_driver_id, status = ''active'', pricePerSeat = 100,
     totalSeats = 4, bookedSeats = 0, totalEarnings = 0, passengers = []\<rparr>"

definition ex_driver :: user_doc where
  "ex_driver = \<lparr>firstName = ''Dev'', lastName = ''Rao'', user_phone = ''5550001'',
     rating_average = Some 4, rating_count = 2\<rparr>"

definition ex_passenger :: user_doc where
  "ex_passenger = \<lparr>firstName = ''Asha'', lastName = ''Nair'', user_phone = ''5550002'',
     rating_average = Some 0, rating_count = 0\<rparr>"

definition ex_db0 :: db where
  "ex_db0 = \<lparr>bookings = [], trips = [(ex_trip_id, ex_trip)],
     users = [(ex_driver_id, ex_driver), (ex_passenger_id, ex_passenger)]\<rparr>"

definition ex_request :: create_request where
  "ex_request = \<lparr>req_tripId = ex_trip_id, req_seatsBooked = 2,
     req_pickupPoint = \<lparr>location = '' Main St'', time = ''9:30''\<rparr>,
     req_dropPoint = \<lparr>location = ''Airport '', time = ''10:15''\<rparr>,
     req_paymentMethod = ''upi'', req_passengerDetails = [''Asha'', ''Ravi''],
     req_specialRequests = None\<rparr>"

definition ex_booking1 :: booking where
  "ex_booking1 = \<lparr>trip = ex_trip_id, passenger = ex_passenger_id, seatsBooked = 2,
     totalAmount = 200,
     pickupPoint = \<lparr>location = ''Main St'', time = ''9:30''\<rparr>,
     dropPoint = \<lparr>location = ''Airport'', time = ''10:15''\<rparr>,
     paymentMethod = ''upi'', passengerDetails = [''Asha'', ''Ravi''],
     specialRequests = None, paymentStatus = ''pending'', bookingStatus = ''pending'',
     transactionId = None,
     otp = Some \<lparr>code = ''4821'', generatedAt = 1000000, verified = False\<rparr>,
     cancellationReason = None, cancelledBy = None, cancelledAt = None,
     refundAmount = None, forDriver = None, forPassenger = None,
     driverContact = None, passengerContact = None\<rparr>"

definition ex_trip1 :: trip_doc where
  "ex_trip1 = \<lparr>driver = ex_driver_id, status = ''active'', pricePerSeat = 100,
     totalSeats = 4, bookedSeats = 2, totalEarnings = 200,
     passengers = [\<lparr>user = ex_passenger_id, entry_seatsBooked = 2, bookingDate = 1000000\<rparr>]\<rparr>"

definition ex_db1 :: db where
  "ex_db1 = \<lparr>bookings = [(ex_booking_id, ex_booking1)], trips = [(ex_trip_id, ex_trip1)],
     users = [(ex_driver_id, ex_driver), (ex_passenger_id, ex_passenger)]\<rparr>"

definition ex_booking2 :: booking where
  "ex_booking2 = ex_booking1\<lparr>bookingStatus := ''completed''\<rparr>"

definition ex_db2 :: db where
  "ex_db2 = ex_db1\<lparr>bookings := [(ex_booking_id, ex_booking2)]\<rparr>"

definition full_refund :: refund_policy where
  "full_refund now b t = totalAmount b"

definition ex_db_cancelled :: db where
  "ex_db_cancelled =
     snd (cancel_booking full_refund 1500000 ex_db1 ex_passenger_id ex_booking_id
            (Some ''change of plans''))"

definition ex_db_released_twice :: db where
  "ex_db_released_twice =
     snd (update_payment ex_db_cancelled ex_passenger_id ex_booking_id ''failed'' None)"

section \<open>The mirror invariant of the spec\<close>

text \<open>
  The spec's invariant, in its words: the seat counts and amounts of a trip's bookings that
  are neither cancelled nor failed add up to the trip's \<^verbatim>\<open>bookedSeats\<close> and
  \<^verbatim>\<open>totalEarnings\<close>.
\<close>

definition live :: "object_id \<Rightarrow> booking \<Rightarrow> bool" where
  "live tid b = (trip b = tid \<and> bookingStatus b \<noteq> ''cancelled'' \<and> paymentStatus b \<noteq> ''failed'')"

definition live_seats :: "db \<Rightarrow> object_id \<Rightarrow> int" where
  "live_seats s tid = sum_list (map (\<lambda>(i, b). seatsBooked b) (filter (\<lambda>(i, b). live tid b) (bookings s)))"

definition live_amount :: "db \<Rightarrow> object_id \<Rightarrow> rat" where
  "live_amount s tid = sum_list (map (\<lambda>(i, b). totalAmount b) (filter (\<lambda>(i, b). live tid b) (bookings s)))"

definition mirrored :: "db \<Rightarrow> bool" where
  "mirrored s =
     list_all (\<lambda>(tid, t). bookedSeats t = live_seats s tid \<and> totalEarnings t = live_amount s tid)
       (trips s)"

section \<open>Facts about the collections and the example database\<close>

lemmas ex_ids =
  ex_trip_id_def ex_driver_id_def ex_passenger_id_def ex_booking_id_def

lemma findById_save_same: "findById (save coll i d) i = Some d"
  by (simp add: findById_def save_def update_conv')

lemma findById_save_other: "j \<noteq> i \<Longrightarrow> findById (save coll i d) j = findById coll j"
  by (simp add: findById_def save_def update_conv')

lemma ex_request_valid: "valid_create ex_request"
  by (simp add: valid_create_def ex_request_def isMongoId_def ex_ids trim_def is_space_def
      is_digit_def)

lemma ex_db1_created:
  "create_booking 1000000 ex_booking_id 3821 ex_db0 ex_passenger_id ex_request
     = (BookingCreated (Some ex_booking1) ''4821'', ex_db1)"
  using ex_request_valid
  by (simp add: create_booking_def ex_db0_def ex_db1_def ex_request_def ex_trip_def ex_trip1_def
      ex_booking1_def findById_def save_def hasAvailableSeats_def new_Booking_def generateOTP_def
      four_digits_def digit_char_def trim_def is_space_def Let_def ex_ids)

lemma ex_db1_booking: "findById (bookings ex_db1) ex_booking_id = Some ex_booking1"
  by (simp add: ex_db1_def findById_def)

lemma ex_db1_trip: "findById (trips ex_db1) ex_trip_id = Some ex_trip1"
  by (simp add: ex_db1_def findById_def)

lemma roster_without: "uid \<notin> user ` set (filter (\<lambda>p. user p \<noteq> uid) ps)"
  by auto

lemma is_digit_digit_char: "is_digit (digit_char d)"
  using nth_mem [of "d mod 10" "''0123456789''"]
  by (simp add: is_digit_def digit_char_def del: nth_mem)

lemma four_digits_shape: "length (four_digits n) = 4 \<and> list_all is_digit (four_digits n)"
  by (simp add: four_digits_def is_digit_digit_char)

lemma save_fresh: "findById coll i = None \<Longrightarrow> save coll i d = coll @ [(i, d)]"
  unfolding findById_def save_def
  by (induction coll) (auto split: if_splits)

lemma save_twice: "save (save coll i d) i d' = save coll i d'"
  by (simp add: save_def)

lemma rate_user_bookings: "bookings (rate_user s target n) = bookings s"
  by (simp add: rate_user_def split: option.splits)

lemma rate_user_trips: "trips (rate_user s target n) = trips s"
  by (simp add: rate_user_def split: option.splits)

lemma ex_db_cancelled_eq:
  "ex_db_cancelled =
     \<lparr>bookings = [(ex_booking_id, ex_booking1\<lparr>bookingStatus := ''cancelled'',
                    cancellationReason := Some ''change of plans'',
                    cancelledBy := Some ex_passenger_id, cancelledAt := Some 1500000,
                    refundAmount := Some 200\<rparr>)],
      trips = [(ex_trip_id, ex_trip)],
      users = [(ex_driver_id, ex_driver), (ex_passenger_id, ex_passenger)]\<rparr>"
  by (simp add: ex_db_cancelled_def cancel_booking_def ex_db1_def ex_booking1_def ex_trip1_def
      ex_trip_def findById_def save_def releaseSeats_def full_refund_def Let_def)

lemma ex_db_released_twice_eq:
  "ex_db_released_twice =
     \<lparr>bookings = [(ex_booking_id, ex_booking1\<lparr>bookingStatus := ''cancelled'',
                    paymentStatus := ''failed'',
                    cancellationReason := Some ''change of plans'',
                    cancelledBy := Some ex_passenger_id, cancelledAt := Some 1500000,
                    refundAmount := Some 200\<rparr>)],
      trips = [(ex_trip_id, ex_trip\<lparr>bookedSeats := - 2, totalEarnings := - 200\<rparr>)],
      users = [(ex_driver_id, ex_driver), (ex_passenger_id, ex_passenger)]\<rparr>"
  by (simp add: ex_db_released_twice_def ex_db_cancelled_eq update_payment_def valid_payment_def
      truthy_string_def ex_booking1_def ex_trip_def findById_def save_def releaseSeats_def Let_def)

lemma ex_db0_trip: "findById (trips ex_db0) ex_trip_id = Some ex_trip"
  by (simp add: ex_db0_def findById_def)

lemma ex_request_more_valid:
  "valid_create (ex_request\<lparr>req_seatsBooked := 5\<rparr>)"
  "valid_create (ex_request\<lparr>req_seatsBooked := 3\<rparr>)"
  "valid_create (ex_request\<lparr>req_tripId := ex_booking_id\<rparr>)"
  using ex_request_valid by (simp_all add: valid_create_def isMongoId_def ex_ids)

lemma ex_db2_booking: "findById (bookings ex_db2) ex_booking_id = Some ex_booking2"
  by (simp add: ex_db2_def findById_def)

lemma ex_db2_trip: "findById (trips ex_db2) ex_trip_id = Some ex_trip1"
  by (simp add: ex_db2_def ex_db1_def findById_def)

lemma ex_db2_driver: "findById (users ex_db2) ex_driver_id = Some ex_driver"
  by (simp add: ex_db2_def ex_db1_def findById_def)

section \<open>OTP verification: the claim\<close>

lemma otpAge_le_30: "otpAge now c \<le> 30 \<longleftrightarrow> now - generatedAt c \<le> 1800000"
proof -
  have "otpAge now c \<le> 30 \<longleftrightarrow> (of_int (now - generatedAt c) :: rat) \<le> of_int 1800000"
    by (simp add: otpAge_def field_simps)
  then show ?thesis by (simp only: of_int_le_iff)
qed

text \<open>
  C2.  For a booking that exists, a caller who is its passenger or the driver of its
  trip, and a submitted string of length 4: the verification answers 200 exactly when
  the booking has an OTP whose code equals the submitted string and whose age in
  minutes is at most 30.  When it answers 200, the booking stored under the id is the
  old one with \<open>otp.verified = true\<close> and \<open>bookingStatus = confirmed\<close>; otherwise the
  answer is 400 and the database is unchanged.
\<close>

theorem verify_otp_iff:
  assumes len: "length submitted = 4"
      and found: "findById (bookings s) bid = Some b"
      and auth: "passenger b = uid
                 \<or> (\<exists>t. findById (trips s) (trip b) = Some t \<and> driver t = uid)"
  shows "(status_of (fst (verify_otp now s uid bid submitted)) = 200
            \<longleftrightarrow> (\<exists>c. otp b = Some c \<and> code c = submitted \<and> otpAge now c \<le> 30))
       \<and> (status_of (fst (verify_otp now s uid bid submitted)) = 200 \<longrightarrow>
            (\<exists>c b'. otp b = Some c
               \<and> b' = b\<lparr>otp := Some (c\<lparr>verified := True\<rparr>), bookingStatus := ''confirmed''\<rparr>
               \<and> fst (verify_otp now s uid bid submitted) = OtpVerified b'
               \<and> findById (bookings (snd (verify_otp now s uid bid submitted))) bid = Some b'))
       \<and> (status_of (fst (verify_otp now s uid bid submitted)) \<noteq> 200 \<longrightarrow>
            status_of (fst (verify_otp now s uid bid submitted)) = 400
            \<and> snd (verify_otp now s uid bid submitted) = s)"
proof -
  have authd: "\<not> (passenger b \<noteq> uid \<and>
           (case findById (trips s) (trip b) of None \<Rightarrow> True | Some t \<Rightarrow> driver t \<noteq> uid))"
    using auth by (auto split: option.splits)
  show ?thesis
  proof (cases "otp b")
    case None
    then show ?thesis
      using len found authd by (simp add: verify_otp_def)
  next
    case (Some c)
    then show ?thesis
      using len found authd
      by (simp add: verify_otp_def Let_def findById_save_same not_less)
  qed
qed

text \<open>
  The OTP \<^verbatim>\<open>4821\<close> generated at \<open>T = 1000000\<close> is accepted from the passenger 29
  minutes later and refused 31 minutes later; a wrong code is refused at once.
\<close>

theorem verify_otp_iff_witness:
  "status_of (fst (verify_otp (1000000 + 29 * 60000) ex_db1 ex_passenger_id ex_booking_id ''4821'')) = 200
   \<and> status_of (fst (verify_otp (1000000 + 31 * 60000) ex_db1 ex_passenger_id ex_booking_id ''4821'')) = 400
   \<and> status_of (fst (verify_otp 1000000 ex_db1 ex_passenger_id ex_booking_id ''4812'')) = 400"
proof -
  have len: "length ''4821'' = 4" "length ''4812'' = 4" by simp_all
  have auth: "passenger ex_booking1 = ex_passenger_id
     \<or> (\<exists>t. findById (trips ex_db1) (trip ex_booking1) = Some t \<and> driver t = ex_passenger_id)"
    by (simp add: ex_booking1_def)
  have otp1: "otp ex_booking1 = Some \<lparr>code = ''4821'', generatedAt = 1000000, verified = False\<rparr>"
    by (simp add: ex_booking1_def)
  have a: "status_of (fst (verify_otp (1000000 + 29 * 60000) ex_db1 ex_passenger_id ex_booking_id ''4821'')) = 200"
    using verify_otp_iff [OF len(1) ex_db1_booking auth, of "1000000 + 29 * 60000"] otp1
    by (simp add: otpAge_le_30)
  have b: "status_of (fst (verify_otp (1000000 + 31 * 60000) ex_db1 ex_passenger_id ex_booking_id ''4821'')) = 400"
    using verify_otp_iff [OF len(1) ex_db1_booking auth, of "1000000 + 31 * 60000"] otp1
    by (simp add: otpAge_le_30)
  have c: "status_of (fst (verify_otp 1000000 ex_db1 ex_passenger_id ex_booking_id ''4812'')) = 400"
    using verify_otp_iff [OF len(2) ex_db1_booking auth, of 1000000] otp1
    by simp
  from a b c show ?thesis by simp
qed

section \<open>Booking creation: the claims\<close>

text \<open>
  C4.  For a request that passed validation, the preconditions are checked in the
  order trip exists, trip is active, requester is not the driver, enough seats remain
  (\<open>totalSeats - bookedSeats \<ge> seatsBooked\<close>), one passenger detail per seat, and the
  first one that fails decides the answer: each error is returned exactly when its own
  check fails and all earlier checks passed, and 201 exactly when all five pass.  A
  request that is refused leaves the database unchanged.
\<close>

theorem create_first_failure:
  assumes valid: "valid_create req"
  shows "(fst (create_booking now bid r s uid req) = Message 404 ''Trip not found''
            \<longleftrightarrow> findById (trips s) (req_tripId req) = None)
       \<and> (\<forall>t. findById (trips s) (req_tripId req) = Some t \<longrightarrow>
            (fst (create_booking now bid r s uid req)
                 = Message 400 ''Trip is not available for booking''
               \<longleftrightarrow> status t \<noteq> ''active'')
          \<and> (fst (create_booking now bid r s uid req)
                 = Message 400 ''You cannot book your own trip''
               \<longleftrightarrow> status t = ''active'' \<and> driver t = uid)
          \<and> (fst (create_booking now bid r s uid req)
                 = Message 400 ''Not enough seats available''
               \<longleftrightarrow> status t = ''active'' \<and> driver t \<noteq> uid
                   \<and> \<not> (totalSeats t - bookedSeats t \<ge> req_seatsBooked req))
          \<and> (fst (create_booking now bid r s uid req)
                 = Message 400 ''Passenger details count must match seats booked''
               \<longleftrightarrow> status t = ''active'' \<and> driver t \<noteq> uid
                   \<and> totalSeats t - bookedSeats t \<ge> req_seatsBooked req
                   \<and> int (length (req_passengerDetails req)) \<noteq> req_seatsBooked req)
          \<and> (status_of (fst (create_booking now bid r s uid req)) = 201
               \<longleftrightarrow> status t = ''active'' \<and> driver t \<noteq> uid
                   \<and> totalSeats t - bookedSeats t \<ge> req_seatsBooked req
                   \<and> int (length (req_passengerDetails req)) = req_seatsBooked req))
       \<and> (status_of (fst (create_booking now bid r s uid req)) \<noteq> 201 \<longrightarrow>
            snd (create_booking now bid r s uid req) = s)"
proof (cases "findById (trips s) (req_tripId req)")
  case None
  with valid show ?thesis by (simp add: create_booking_def)
next
  case (Some t)
  with valid show ?thesis
    by (simp add: create_booking_def hasAvailableSeats_def Let_def split_def)
qed

text \<open>
  On \<open>ex_db0\<close>: an unknown trip id gives 404; the driver asking for five seats is refused
  as the driver of the trip, although the seats would not suffice either; a passenger
  asking for five of the four seats with two details is told of the seats, not of the
  details; three seats with two details fail on the details; two seats with two details
  are booked.
\<close>

theorem create_first_failure_witness:
  "fst (create_booking 1000000 ex_booking_id 3821 ex_db0 ex_passenger_id
          (ex_request\<lparr>req_tripId := ex_booking_id\<rparr>))
     = Message 404 ''Trip not found''
   \<and> fst (create_booking 1000000 ex_booking_id 3821 ex_db0 ex_driver_id
            (ex_request\<lparr>req_seatsBooked := 5\<rparr>))
     = Message 400 ''You cannot book your own trip''
   \<and> fst (create_booking 1000000 ex_booking_id 3821 ex_db0 ex_passenger_id
            (ex_request\<lparr>req_seatsBooked := 5\<rparr>))
     = Message 400 ''Not enough seats available''
   \<and> fst (create_booking 1000000 ex_booking_id 3821 ex_db0 ex_passenger_id
            (ex_request\<lparr>req_seatsBooked := 3\<rparr>))
     = Message 400 ''Passenger details count must match seats booked''
   \<and> status_of (fst (create_booking 1000000 ex_booking_id 3821 ex_db0 ex_passenger_id
            ex_request)) = 201"
proof -
  have nf: "findById (trips ex_db0) ex_booking_id = None"
    by (simp add: ex_db0_def findById_def ex_ids)
  have a: "fst (create_booking 1000000 ex_booking_id 3821 ex_db0 ex_passenger_id
          (ex_request\<lparr>req_tripId := ex_booking_id\<rparr>))
     = Message 404 ''Trip not found''"
    using create_first_failure [OF ex_request_more_valid(3), of 1000000 ex_booking_id 3821
        ex_db0 ex_passenger_id] nf
    by (simp add: ex_request_def)
  have b: "fst (create_booking 1000000 ex_booking_id 3821 ex_db0 ex_driver_id
            (ex_request\<lparr>req_seatsBooked := 5\<rparr>))
     = Message 400 ''You cannot book your own trip''"
    using create_first_failure [OF ex_request_more_valid(1), of 1000000 ex_booking_id 3821
        ex_db0 ex_driver_id] ex_db0_trip
    by (simp add: ex_request_def ex_trip_def)
  have c: "fst (create_booking 1000000 ex_booking_id 3821 ex_db0 ex_passenger_id
            (ex_request\<lparr>req_seatsBooked := 5\<rparr>))
     = Message 400 ''Not enough seats available''"
    using create_first_failure [OF ex_request_more_valid(1), of 1000000 ex_booking_id 3821
        ex_db0 ex_passenger_id] ex_db0_trip
    by (simp add: ex_request_def ex_trip_def ex_ids)
  have d: "fst (create_booking 1000000 ex_booking_id 3821 ex_db0 ex_passenger_id
            (ex_request\<lparr>req_seatsBooked := 3\<rparr>))
     = Message 400 ''Passenger details count must match seats booked''"
    using create_first_failure [OF ex_request_more_valid(2), of 1000000 ex_booking_id 3821
        ex_db0 ex_passenger_id] ex_db0_trip
    by (simp add: ex_request_def ex_trip_def ex_ids)
  have e: "status_of (fst (create_booking 1000000 ex_booking_id 3821 ex_db0 ex_passenger_id
            ex_request)) = 201"
    using create_first_failure [OF ex_request_valid, of 1000000 ex_booking_id 3821
        ex_db0 ex_passenger_id] ex_db0_trip
    by (simp add: ex_request_def ex_trip_def ex_ids)
  from a b c d e show ?thesis by simp
qed

text \<open>
  C5.  For a request that passes validation and all five preconditions: the answer
  is 201 with the booking stored under the new id and the plaintext OTP; the booking's
  \<open>totalAmount\<close> is \<open>pricePerSeat * seatsBooked\<close>; its OTP is the returned code, four
  decimal digits, with \<open>generatedAt = now\<close> and \<open>verified = false\<close>; the trip's
  \<open>bookedSeats\<close> has grown by \<open>seatsBooked\<close>, its \<open>totalEarnings\<close> by \<open>totalAmount\<close>,
  and one entry for the requester is appended to its roster.  When the id is fresh the
  booking is a new element of the collection.
\<close>

theorem create_effects:
  assumes valid: "valid_create req"
      and tfound: "findById (trips s) (req_tripId req) = Some t"
      and active: "status t = ''active''"
      and notdriver: "driver t \<noteq> uid"
      and seats: "totalSeats t - bookedSeats t \<ge> req_seatsBooked req"
      and details: "int (length (req_passengerDetails req)) = req_seatsBooked req"
  shows "\<exists>b c t' s'.
      create_booking now bid r s uid req = (BookingCreated (Some b) c, s')
    \<and> findById (bookings s') bid = Some b
    \<and> (findById (bookings s) bid = None \<longrightarrow> bookings s' = bookings s @ [(bid, b)])
    \<and> trip b = req_tripId req \<and> passenger b = uid
    \<and> seatsBooked b = req_seatsBooked req
    \<and> totalAmount b = pricePerSeat t * of_int (req_seatsBooked req)
    \<and> otp b = Some \<lparr>code = c, generatedAt = now, verified = False\<rparr>
    \<and> length c = 4 \<and> list_all is_digit c
    \<and> findById (trips s') (req_tripId req) = Some t'
    \<and> bookedSeats t' = bookedSeats t + req_seatsBooked req
    \<and> totalEarnings t' = totalEarnings t + totalAmount b
    \<and> passengers t' = passengers t @
         [\<lparr>user = uid, entry_seatsBooked = req_seatsBooked req, bookingDate = now\<rparr>]"
  using valid tfound active notdriver seats details four_digits_shape [of "1000 + r mod 9000"]
  by (simp add: create_booking_def hasAvailableSeats_def Let_def split_def generateOTP_def
      findById_save_same new_Booking_def save_twice save_fresh)

text \<open>The booking of two seats at 100 each on \<open>ex_db0\<close>.\<close>

theorem create_effects_witness:
  "\<exists>b c t' s'.
      create_booking 1000000 ex_booking_id 3821 ex_db0 ex_passenger_id ex_request
        = (BookingCreated (Some b) c, s')
    \<and> bookings s' = [(ex_booking_id, b)]
    \<and> seatsBooked b = 2 \<and> totalAmount b = 200
    \<and> otp b = Some \<lparr>code = c, generatedAt = 1000000, verified = False\<rparr>
    \<and> length c = 4 \<and> list_all is_digit c
    \<and> findById (trips s') ex_trip_id = Some t'
    \<and> bookedSeats t' = 2 \<and> totalEarnings t' = 200
    \<and> passengers t' = [\<lparr>user = ex_passenger_id, entry_seatsBooked = 2, bookingDate = 1000000\<rparr>]"
proof -
  have tf: "findById (trips ex_db0) (req_tripId ex_request) = Some ex_trip"
    using ex_db0_trip by (simp add: ex_request_def)
  have h: "status ex_trip = ''active''" "driver ex_trip \<noteq> ex_passenger_id"
      "totalSeats ex_trip - bookedSeats ex_trip \<ge> req_seatsBooked ex_request"
      "int (length (req_passengerDetails ex_request)) = req_seatsBooked ex_request"
    by (simp_all add: ex_trip_def ex_request_def ex_ids)
  have fresh: "findById (bookings ex_db0) ex_booking_id = None"
    by (simp add: ex_db0_def findById_def)
  from create_effects [OF ex_request_valid tf h, of 1000000 ex_booking_id 3821] fresh
  obtain b c t' s' where
    r: "create_booking 1000000 ex_booking_id 3821 ex_db0 ex_passenger_id ex_request
          = (BookingCreated (Some b) c, s')"
    and bs: "bookings s' = bookings ex_db0 @ [(ex_booking_id, b)]"
    and b: "seatsBooked b = req_seatsBooked ex_request"
      "totalAmount b = pricePerSeat ex_trip * of_int (req_seatsBooked ex_request)"
      "otp b = Some \<lparr>code = c, generatedAt = 1000000, verified = False\<rparr>"
      "length c = 4" "list_all is_digit c"
    and t: "findById (trips s') (req_tripId ex_request) = Some t'"
      "bookedSeats t' = bookedSeats ex_trip + req_seatsBooked ex_request"
      "totalEarnings t' = totalEarnings ex_trip + totalAmount b"
      "passengers t' = passengers ex_trip @
         [\<lparr>user = ex_passenger_id, entry_seatsBooked = req_seatsBooked ex_request,
           bookingDate = 1000000\<rparr>]"
    by blast
  from r bs b t show ?thesis
    by (simp add: ex_request_def ex_trip_def ex_db0_def)
qed

section \<open>Payment status update: the claims\<close>

text \<open>
  C6.  For a valid payment update by the owning passenger: \<open>paid\<close> with a transaction
  id stores \<open>paymentStatus = paid\<close>, the (trimmed) transaction id and
  \<open>bookingStatus = confirmed\<close>, and touches nothing but that booking; \<open>failed\<close> stores
  \<open>paymentStatus = failed\<close> and \<open>bookingStatus = cancelled\<close> and, when the trip exists,
  lowers its \<open>bookedSeats\<close> by the booking's \<open>seatsBooked\<close> and its \<open>totalEarnings\<close> by
  the booking's \<open>totalAmount\<close> and removes the passenger's entries from its roster.
\<close>

theorem payment_effects:
  assumes valid: "valid_payment ps tx"
      and found: "findById (bookings s) bid = Some b"
      and owner: "passenger b = uid"
  shows "(ps = ''paid'' \<and> tx \<noteq> None \<longrightarrow>
           (\<exists>b'. update_payment s uid bid ps tx
                   = (PaymentUpdated b', s\<lparr>bookings := save (bookings s) bid b'\<rparr>)
              \<and> b' = b\<lparr>paymentStatus := ''paid'', transactionId := map_option trim tx,
                        bookingStatus := ''confirmed''\<rparr>))
       \<and> (ps = ''failed'' \<longrightarrow>
           (\<exists>b' s'. update_payment s uid bid ps tx = (PaymentUpdated b', s')
              \<and> findById (bookings s') bid = Some b'
              \<and> b' = b\<lparr>paymentStatus := ''failed'', bookingStatus := ''cancelled''\<rparr>
              \<and> (\<forall>t. findById (trips s) (trip b) = Some t \<longrightarrow>
                   (\<exists>t'. findById (trips s') (trip b) = Some t'
                      \<and> bookedSeats t' = bookedSeats t - seatsBooked b
                      \<and> totalEarnings t' = totalEarnings t - totalAmount b
                      \<and> passengers t' = filter (\<lambda>p. user p \<noteq> uid) (passengers t)
                      \<and> uid \<notin> user ` set (passengers t')))))"
proof (intro conjI impI)
  assume a: "ps = ''paid'' \<and> tx \<noteq> None"
  then obtain x where x: "tx = Some x" by auto
  with valid have "trim x \<noteq> []" by (auto simp: valid_payment_def)
  with a x valid found owner
  show "\<exists>b'. update_payment s uid bid ps tx
                   = (PaymentUpdated b', s\<lparr>bookings := save (bookings s) bid b'\<rparr>)
              \<and> b' = b\<lparr>paymentStatus := ''paid'', transactionId := map_option trim tx,
                        bookingStatus := ''confirmed''\<rparr>"
    by (simp add: update_payment_def Let_def truthy_string_def)
next
  assume a: "ps = ''failed''"
  show "\<exists>b' s'. update_payment s uid bid ps tx = (PaymentUpdated b', s')
              \<and> findById (bookings s') bid = Some b'
              \<and> b' = b\<lparr>paymentStatus := ''failed'', bookingStatus := ''cancelled''\<rparr>
              \<and> (\<forall>t. findById (trips s) (trip b) = Some t \<longrightarrow>
                   (\<exists>t'. findById (trips s') (trip b) = Some t'
                      \<and> bookedSeats t' = bookedSeats t - seatsBooked b
                      \<and> totalEarnings t' = totalEarnings t - totalAmount b
                      \<and> passengers t' = filter (\<lambda>p. user p \<noteq> uid) (passengers t)
                      \<and> uid \<notin> user ` set (passengers t')))"
  proof (cases "findById (trips s) (trip b)")
    case None
    with a valid found owner show ?thesis
      by (simp add: update_payment_def Let_def findById_save_same)
  next
    case (Some t)
    with a valid found owner roster_without [of uid "passengers t"] show ?thesis
      by (simp add: update_payment_def Let_def findById_save_same releaseSeats_def)
  qed
qed

text \<open>
  On \<open>ex_db1\<close>: \<open>paid\<close> with the transaction id \<^verbatim>\<open>" TXN42 "\<close> confirms the booking and
  stores \<^verbatim>\<open>"TXN42"\<close>; \<open>failed\<close> cancels it and brings the trip back to no seats, no
  earnings and an empty roster.
\<close>

theorem payment_effects_witness:
  "update_payment ex_db1 ex_passenger_id ex_booking_id ''paid'' (Some '' TXN42 '')
     = (PaymentUpdated (ex_booking1\<lparr>paymentStatus := ''paid'', transactionId := Some ''TXN42'',
                          bookingStatus := ''confirmed''\<rparr>),
        ex_db1\<lparr>bookings := [(ex_booking_id,
                   ex_booking1\<lparr>paymentStatus := ''paid'', transactionId := Some ''TXN42'',
                          bookingStatus := ''confirmed''\<rparr>)]\<rparr>)
   \<and> (\<exists>b' s' t'. update_payment ex_db1 ex_passenger_id ex_booking_id ''failed'' None
                   = (PaymentUpdated b', s')
         \<and> paymentStatus b' = ''failed'' \<and> bookingStatus b' = ''cancelled''
         \<and> findById (trips s') ex_trip_id = Some t'
         \<and> bookedSeats t' = 0 \<and> totalEarnings t' = 0 \<and> passengers t' = [])"
proof -
  have v: "valid_payment ''paid'' (Some '' TXN42 '')" "valid_payment ''failed'' None"
    by (simp_all add: valid_payment_def trim_def is_space_def)
  have o: "passenger ex_booking1 = ex_passenger_id" by (simp add: ex_booking1_def)
  have tr: "trim '' TXN42 '' = ''TXN42''" by (simp add: trim_def is_space_def)
  have a: "update_payment ex_db1 ex_passenger_id ex_booking_id ''paid'' (Some '' TXN42 '')
     = (PaymentUpdated (ex_booking1\<lparr>paymentStatus := ''paid'', transactionId := Some ''TXN42'',
                          bookingStatus := ''confirmed''\<rparr>),
        ex_db1\<lparr>bookings := [(ex_booking_id,
                   ex_booking1\<lparr>paymentStatus := ''paid'', transactionId := Some ''TXN42'',
                          bookingStatus := ''confirmed''\<rparr>)]\<rparr>)"
    using payment_effects [OF v(1) ex_db1_booking o] tr
    by (simp add: save_def ex_db1_def)
  from payment_effects [OF v(2) ex_db1_booking o]
  obtain b' s' where
    r: "update_payment ex_db1 ex_passenger_id ex_booking_id ''failed'' None
          = (PaymentUpdated b', s')"
    and b: "b' = ex_booking1\<lparr>paymentStatus := ''failed'', bookingStatus := ''cancelled''\<rparr>"
    and t: "\<forall>t. findById (trips ex_db1) (trip ex_booking1) = Some t \<longrightarrow>
            (\<exists>t'. findById (trips s') (trip ex_booking1) = Some t'
                      \<and> bookedSeats t' = bookedSeats t - seatsBooked ex_booking1
                      \<and> totalEarnings t' = totalEarnings t - totalAmount ex_booking1
                      \<and> passengers t' = filter (\<lambda>p. user p \<noteq> ex_passenger_id) (passengers t)
                      \<and> ex_passenger_id \<notin> user ` set (passengers t'))"
    by blast
  have "trip ex_booking1 = ex_trip_id" by (simp add: ex_booking1_def)
  with t ex_db1_trip obtain t' where
    "findById (trips s') ex_trip_id = Some t'"
    "bookedSeats t' = bookedSeats ex_trip1 - seatsBooked ex_booking1"
    "totalEarnings t' = totalEarnings ex_trip1 - totalAmount ex_booking1"
    "passengers t' = filter (\<lambda>p. user p \<noteq> ex_passenger_id) (passengers ex_trip1)"
    by auto
  with r b have "\<exists>b' s' t'. update_payment ex_db1 ex_passenger_id ex_booking_id ''failed'' None
                   = (PaymentUpdated b', s')
         \<and> paymentStatus b' = ''failed'' \<and> bookingStatus b' = ''cancelled''
         \<and> findById (trips s') ex_trip_id = Some t'
         \<and> bookedSeats t' = 0 \<and> totalEarnings t' = 0 \<and> passengers t' = []"
    by (simp add: ex_trip1_def ex_booking1_def)
  with a show ?thesis by simp
qed

text \<open>
  C9.  A payment update \<open>paid\<close> without a transaction id, by the owning passenger,
  stores the booking with \<open>paymentStatus = paid\<close> and every other field as it was:
  \<open>bookingStatus\<close> is not set to \<open>confirmed\<close> and no transaction id is stored.  Trips
  and users are unchanged.
\<close>

theorem paid_without_transaction:
  assumes found: "findById (bookings s) bid = Some b"
      and owner: "passenger b = uid"
  shows "update_payment s uid bid ''paid'' None
           = (PaymentUpdated (b\<lparr>paymentStatus := ''paid''\<rparr>),
              s\<lparr>bookings := save (bookings s) bid (b\<lparr>paymentStatus := ''paid''\<rparr>)\<rparr>)
       \<and> (\<exists>b'. findById (bookings (snd (update_payment s uid bid ''paid'' None))) bid = Some b'
             \<and> paymentStatus b' = ''paid''
             \<and> bookingStatus b' = bookingStatus b
             \<and> transactionId b' = transactionId b
             \<and> b' = b\<lparr>paymentStatus := ''paid''\<rparr>)
       \<and> trips (snd (update_payment s uid bid ''paid'' None)) = trips s
       \<and> users (snd (update_payment s uid bid ''paid'' None)) = users s"
  using found owner
  by (simp add: update_payment_def valid_payment_def Let_def truthy_string_def findById_save_same)

text \<open>On \<open>ex_db1\<close> the booking stays \<open>pending\<close> and without a transaction id.\<close>

theorem paid_without_transaction_witness:
  "update_payment ex_db1 ex_passenger_id ex_booking_id ''paid'' None
     = (PaymentUpdated (ex_booking1\<lparr>paymentStatus := ''paid''\<rparr>),
        ex_db1\<lparr>bookings := [(ex_booking_id, ex_booking1\<lparr>paymentStatus := ''paid''\<rparr>)]\<rparr>)
   \<and> bookingStatus (ex_booking1\<lparr>paymentStatus := ''paid''\<rparr>) = ''pending''
   \<and> transactionId (ex_booking1\<lparr>paymentStatus := ''paid''\<rparr>) = None"
proof -
  have o: "passenger ex_booking1 = ex_passenger_id" by (simp add: ex_booking1_def)
  from paid_without_transaction [OF ex_db1_booking o] show ?thesis
    by (simp add: save_def ex_db1_def ex_booking1_def)
qed

section \<open>Cancellation: the claims\<close>

text \<open>
  C3.  When the owning passenger cancels a booking that is not yet cancelled and
  whose trip exists: the booking stored afterwards is the old one with
  \<open>bookingStatus = cancelled\<close> and the reason, the cancelling user, the time and the
  refund recorded; the trip's \<open>bookedSeats\<close> is smaller by exactly the booking's
  \<open>seatsBooked\<close>, its \<open>totalEarnings\<close> by exactly the booking's \<open>totalAmount\<close>; the
  roster keeps exactly the entries of other users, so no entry of the passenger is left;
  nothing else of the trip changes.
\<close>

theorem cancel_effects:
  assumes found: "findById (bookings s) bid = Some b"
      and owner: "passenger b = uid"
      and live: "bookingStatus b \<noteq> ''cancelled''"
      and tfound: "findById (trips s) (trip b) = Some t"
  shows "\<exists>b' t' s'.
      cancel_booking calculateRefund now s uid bid reason
        = (BookingCancelled b' (calculateRefund now b (Some t)), s')
    \<and> findById (bookings s') bid = Some b'
    \<and> b' = b\<lparr>bookingStatus := ''cancelled'', cancellationReason := reason,
              cancelledBy := Some uid, cancelledAt := Some now,
              refundAmount := Some (calculateRefund now b (Some t))\<rparr>
    \<and> findById (trips s') (trip b) = Some t'
    \<and> bookedSeats t' = bookedSeats t - seatsBooked b
    \<and> totalEarnings t' = totalEarnings t - totalAmount b
    \<and> passengers t' = filter (\<lambda>p. user p \<noteq> uid) (passengers t)
    \<and> uid \<notin> user ` set (passengers t')
    \<and> t' = t\<lparr>bookedSeats := bookedSeats t', totalEarnings := totalEarnings t',
              passengers := passengers t'\<rparr>"
  using found owner live tfound
  using roster_without [of uid "passengers t"]
  by (simp add: cancel_booking_def Let_def findById_save_same releaseSeats_def)

text \<open>The passenger cancels the booking of \<open>ex_db1\<close> with a full refund.\<close>

theorem cancel_effects_witness:
  "\<exists>b' t' s'.
      cancel_booking full_refund 1500000 ex_db1 ex_passenger_id ex_booking_id
          (Some ''change of plans'')
        = (BookingCancelled b' 200, s')
    \<and> findById (bookings s') ex_booking_id = Some b'
    \<and> bookingStatus b' = ''cancelled'' \<and> cancellationReason b' = Some ''change of plans''
    \<and> cancelledBy b' = Some ex_passenger_id \<and> cancelledAt b' = Some 1500000
    \<and> refundAmount b' = Some 200
    \<and> findById (trips s') ex_trip_id = Some t'
    \<and> bookedSeats t' = 0 \<and> totalEarnings t' = 0 \<and> passengers t' = []"
proof -
  have o: "passenger ex_booking1 = ex_passenger_id"
      "bookingStatus ex_booking1 \<noteq> ''cancelled''"
    by (simp_all add: ex_booking1_def)
  have tf: "findById (trips ex_db1) (trip ex_booking1) = Some ex_trip1"
    using ex_db1_trip by (simp add: ex_booking1_def)
  from cancel_effects [OF ex_db1_booking o tf, of full_refund 1500000 "Some ''change of plans''"]
  obtain b' t' s' where
    "cancel_booking full_refund 1500000 ex_db1 ex_passenger_id ex_booking_id
          (Some ''change of plans'')
        = (BookingCancelled b' (full_refund 1500000 ex_booking1 (Some ex_trip1)), s')"
    "findById (bookings s') ex_booking_id = Some b'"
    "b' = ex_booking1\<lparr>bookingStatus := ''cancelled'',
              cancellationReason := Some ''change of plans'',
              cancelledBy := Some ex_passenger_id, cancelledAt := Some 1500000,
              refundAmount := Some (full_refund 1500000 ex_booking1 (Some ex_trip1))\<rparr>"
    "findById (trips s') (trip ex_booking1) = Some t'"
    "bookedSeats t' = bookedSeats ex_trip1 - seatsBooked ex_booking1"
    "totalEarnings t' = totalEarnings ex_trip1 - totalAmount ex_booking1"
    "passengers t' = filter (\<lambda>p. user p \<noteq> ex_passenger_id) (passengers ex_trip1)"
    by blast
  then show ?thesis
    by (simp add: full_refund_def ex_booking1_def ex_trip1_def)
qed

text \<open>
  C10.  For the owning passenger, cancellation is refused as \<^verbatim>\<open>already cancelled\<close>
  exactly when \<open>bookingStatus\<close> is \<open>cancelled\<close>, and then nothing changes.  When the
  booking's trip exists, that is the only case not answered with 200: every other status
  is accepted, \<open>completed\<close> included, and the trip's seat and earnings counters are
  rolled back.
\<close>

theorem cancel_rejected_iff:
  assumes found: "findById (bookings s) bid = Some b"
      and owner: "passenger b = uid"
  shows "(fst (cancel_booking calculateRefund now s uid bid reason)
             = Message 400 ''Booking is already cancelled''
            \<longleftrightarrow> bookingStatus b = ''cancelled'')
       \<and> (bookingStatus b = ''cancelled'' \<longrightarrow>
            snd (cancel_booking calculateRefund now s uid bid reason) = s)
       \<and> (\<forall>t. findById (trips s) (trip b) = Some t \<longrightarrow>
            (status_of (fst (cancel_booking calculateRefund now s uid bid reason)) \<noteq> 200
               \<longleftrightarrow> bookingStatus b = ''cancelled'')
          \<and> (bookingStatus b \<noteq> ''cancelled'' \<longrightarrow>
               (\<exists>t'. findById (trips (snd (cancel_booking calculateRefund now s uid bid reason)))
                       (trip b) = Some t'
                  \<and> bookedSeats t' = bookedSeats t - seatsBooked b
                  \<and> totalEarnings t' = totalEarnings t - totalAmount b)))"
proof (cases "findById (trips s) (trip b)")
  case None
  with found owner show ?thesis
    by (simp add: cancel_booking_def Let_def)
next
  case (Some t)
  with found owner show ?thesis
    by (simp add: cancel_booking_def Let_def findById_save_same releaseSeats_def)
qed

text \<open>
  The completed booking of \<open>ex_db2\<close> is cancelled and the trip's counters go back to
  zero; the cancelled booking of \<open>ex_db_cancelled\<close> is refused.
\<close>

theorem cancel_rejected_iff_witness:
  "status_of (fst (cancel_booking full_refund 1500000 ex_db2 ex_passenger_id ex_booking_id None)) = 200
   \<and> (\<exists>t'. findById (trips (snd (cancel_booking full_refund 1500000 ex_db2 ex_passenger_id
                                   ex_booking_id None))) ex_trip_id = Some t'
         \<and> bookedSeats t' = 0 \<and> totalEarnings t' = 0)
   \<and> cancel_booking full_refund 1600000 ex_db_cancelled ex_passenger_id ex_booking_id None
       = (Message 400 ''Booking is already cancelled'', ex_db_cancelled)"
proof -
  have o: "passenger ex_booking2 = ex_passenger_id" "bookingStatus ex_booking2 = ''completed''"
      "trip ex_booking2 = ex_trip_id" "seatsBooked ex_booking2 = 2" "totalAmount ex_booking2 = 200"
    by (simp_all add: ex_booking2_def ex_booking1_def)
  have tf: "findById (trips ex_db2) (trip ex_booking2) = Some ex_trip1"
    using ex_db2_trip o by simp
  have a: "status_of (fst (cancel_booking full_refund 1500000 ex_db2 ex_passenger_id ex_booking_id None)) = 200
   \<and> (\<exists>t'. findById (trips (snd (cancel_booking full_refund 1500000 ex_db2 ex_passenger_id
                                   ex_booking_id None))) ex_trip_id = Some t'
         \<and> bookedSeats t' = 0 \<and> totalEarnings t' = 0)"
    using cancel_rejected_iff [OF ex_db2_booking o(1), of full_refund 1500000 None] tf o
    by (simp add: ex_trip1_def)
  define bc where "bc = ex_booking1\<lparr>bookingStatus := ''cancelled'',
                    cancellationReason := Some ''change of plans'',
                    cancelledBy := Some ex_passenger_id, cancelledAt := Some 1500000,
                    refundAmount := Some 200\<rparr>"
  have f: "findById (bookings ex_db_cancelled) ex_booking_id = Some bc"
    by (simp add: ex_db_cancelled_eq findById_def bc_def)
  have oc: "passenger bc = ex_passenger_id" "bookingStatus bc = ''cancelled''"
    by (simp_all add: bc_def ex_booking1_def)
  have b: "cancel_booking full_refund 1600000 ex_db_cancelled ex_passenger_id ex_booking_id None
       = (Message 400 ''Booking is already cancelled'', ex_db_cancelled)"
    using cancel_rejected_iff [OF f oc(1), of full_refund 1600000 None] oc(2)
    by (simp add: prod_eq_iff)
  from a b show ?thesis by simp
qed

text \<open>
  When the trip document of the booking is gone, line 206 throws after the cancelled
  booking has been saved: the answer is 500 and the cancellation stays.
\<close>

lemma cancel_without_trip:
  assumes "findById (bookings s) bid = Some b" and "passenger b = uid"
      and "bookingStatus b \<noteq> ''cancelled''" and "findById (trips s) (trip b) = None"
  shows "cancel_booking calculateRefund now s uid bid reason
           = (Message 500 ''Server error'',
              s\<lparr>bookings := save (bookings s) bid
                   (b\<lparr>bookingStatus := ''cancelled'', cancellationReason := reason,
                      cancelledBy := Some uid, cancelledAt := Some now,
                      refundAmount := Some (calculateRefund now b None)\<rparr>)\<rparr>)"
  using assms by (simp add: cancel_booking_def Let_def)

section \<open>Rating: the claims\<close>

lemma valid_rate_truthy: "valid_rate r rv \<Longrightarrow> truthy r"
  by (cases r) (auto simp: valid_rate_def isInt_1_5_def truthy_def int_literal_def
      split: option.splits)

lemma ex_rate_number:
  "rate_booking ex_db2 ex_passenger_id ex_booking_id (JNumber 5) None
     = (RatingSubmitted (ex_booking2\<lparr>forDriver := Some \<lparr>rating = JNumber 5, review = None\<rparr>\<rparr>),
        ex_db2\<lparr>users := [(ex_driver_id, ex_driver\<lparr>rating_average := Some (13 / 3), rating_count := 3\<rparr>),
                        (ex_passenger_id, ex_passenger)],
               bookings := [(ex_booking_id,
                  ex_booking2\<lparr>forDriver := Some \<lparr>rating = JNumber 5, review = None\<rparr>\<rparr>)]\<rparr>)"
  by (simp add: rate_booking_def valid_rate_def isInt_1_5_def ex_db2_booking ex_db2_trip
      ex_booking2_def ex_booking1_def ex_trip1_def rated_def Let_def rate_user_def
      add_rating_def js_times_def js_plus_def js_divide_def ex_db2_def ex_db1_def ex_driver_def
      findById_def save_def ex_ids)

lemma ex_rate_string:
  "rate_booking ex_db2 ex_passenger_id ex_booking_id (JString ''5'') None
     = (RatingSubmitted (ex_booking2\<lparr>forDriver := Some \<lparr>rating = JString ''5'', review = None\<rparr>\<rparr>),
        ex_db2\<lparr>users := [(ex_driver_id, ex_driver\<lparr>rating_average := Some (85 / 3), rating_count := 3\<rparr>),
                        (ex_passenger_id, ex_passenger)],
               bookings := [(ex_booking_id,
                  ex_booking2\<lparr>forDriver := Some \<lparr>rating = JString ''5'', review = None\<rparr>\<rparr>)]\<rparr>)"
  by (simp add: rate_booking_def valid_rate_def isInt_1_5_def int_literal_def decimal_def
      is_digit_def digit_val_def ex_db2_booking ex_db2_trip
      ex_booking2_def ex_booking1_def ex_trip1_def rated_def Let_def rate_user_def
      add_rating_def js_times_def js_plus_def js_divide_def number_to_string_def
      string_to_number_def digits_of.simps digit_char_def
      ex_db2_def ex_db1_def ex_driver_def findById_def save_def ex_ids)

text \<open>
  A rating sent as a JSON number follows the streaming mean, in both directions: a valid
  rating \<open>n\<close> of a completed booking, by the passenger (rating the driver) or by the
  driver (rating the passenger), in a direction not rated yet, is answered with 200, and
  the rated user's stored rating becomes
  \<open>average' = (average * count + n) / (count + 1)\<close>, \<open>count' = count + 1\<close>, with no other
  field of the user changed.  The rated user's count is a count: it is not negative, so
  the divisor \<open>count + 1\<close> is not zero.
\<close>

lemma numeric_rating_streaming_mean:
  assumes valid: "valid_rate (JNumber n) rv"
      and found: "findById (bookings s) bid = Some b"
      and completed: "bookingStatus b = ''completed''"
      and tfound: "findById (trips s) (trip b) = Some t"
      and role: "(passenger b = uid \<and> \<not> rated (forDriver b) \<and> target = driver t)
               \<or> (passenger b \<noteq> uid \<and> driver t = uid \<and> \<not> rated (forPassenger b)
                   \<and> target = passenger b)"
      and ufound: "findById (users s) target = Some u"
      and average: "rating_average u = Some a"
      and counted: "0 \<le> rating_count u"
  shows "status_of (fst (rate_booking s uid bid (JNumber n) rv)) = 200
       \<and> (\<exists>u'. findById (users (snd (rate_booking s uid bid (JNumber n) rv))) target = Some u'
             \<and> rating_average u'
                 = Some ((a * of_int (rating_count u) + of_int n) / of_int (rating_count u + 1))
             \<and> rating_count u' = rating_count u + 1
             \<and> u' = u\<lparr>rating_average := rating_average u', rating_count := rating_count u'\<rparr>)"
proof -
  from counted have nz: "(of_int (rating_count u + 1) :: rat) \<noteq> 0"
    by (metis add.commute add_nonneg_eq_0_iff of_int_eq_0_iff zero_le_one zero_neq_one)
  have upd: "add_rating (JNumber n) u
      = u\<lparr>rating_average :=
             Some ((a * of_int (rating_count u) + of_int n) / of_int (rating_count u + 1)),
           rating_count := rating_count u + 1\<rparr>"
    using average nz by (simp add: add_rating_def Let_def js_times_def js_plus_def js_divide_def)
  from role show ?thesis
  proof
    assume "passenger b = uid \<and> \<not> rated (forDriver b) \<and> target = driver t"
    with valid found completed tfound ufound upd show ?thesis
      by (simp add: rate_booking_def Let_def rate_user_def findById_save_same)
  next
    assume "passenger b \<noteq> uid \<and> driver t = uid \<and> \<not> rated (forPassenger b) \<and> target = passenger b"
    with valid found completed tfound ufound upd show ?thesis
      by (simp add: rate_booking_def Let_def rate_user_def findById_save_same)
  qed
qed

text \<open>
  C7.  The claim does not hold for every successful rating submission.  The driver of
  \<open>ex_db2\<close> has average 4 over 2 ratings.  The passenger's rating sent as the number
  \<^verbatim>\<open>5\<close> makes it 13/3 over 3, as the streaming mean has it.  The same rating sent as
  the string \<^verbatim>\<open>"5"\<close> passes the validation and is answered with 200 as well, and line
  360 computes \<^verbatim>\<open>(4 * 2) + "5" = "85"\<close> and \<^verbatim>\<open>"85" / 3\<close>: the stored average is 85/3,
  above every rating there is.
\<close>

theorem string_rating_concatenates:
  "valid_rate (JString ''5'') None
   \<and> status_of (fst (rate_booking ex_db2 ex_passenger_id ex_booking_id (JString ''5'') None)) = 200
   \<and> map_option (\<lambda>u. (rating_average u, rating_count u))
        (findById (users (snd (rate_booking ex_db2 ex_passenger_id ex_booking_id
                                 (JString ''5'') None))) ex_driver_id)
       = Some (Some (85 / 3), 3)
   \<and> map_option (\<lambda>u. (rating_average u, rating_count u))
        (findById (users (snd (rate_booking ex_db2 ex_passenger_id ex_booking_id
                                 (JNumber 5) None))) ex_driver_id)
       = Some (Some (13 / 3), 3)
   \<and> map_option (\<lambda>u. (rating_average u, rating_count u)) (findById (users ex_db2) ex_driver_id)
       = Some (Some 4, 2)"
proof -
  have v: "valid_rate (JString ''5'') None"
    by (simp add: valid_rate_def isInt_1_5_def int_literal_def decimal_def is_digit_def
        digit_val_def)
  have u: "map_option (\<lambda>u. (rating_average u, rating_count u)) (findById (users ex_db2) ex_driver_id)
       = Some (Some 4, 2)"
    by (simp add: ex_db2_driver ex_driver_def)
  from v u show ?thesis
    by (simp add: ex_rate_string ex_rate_number findById_def ex_driver_def)
qed

text \<open>
  C8.  When a rating request was answered with 200, any further rating request of the
  same user on the same booking is answered with 400 and changes nothing in the database:
  neither the booking's rating nor the rated user's average.  When the further request
  is itself valid, the answer is the \<^verbatim>\<open>already rated\<close> message of that direction.
\<close>

theorem second_rating_rejected:
  assumes first: "status_of (fst (rate_booking s uid bid n rv)) = 200"
  shows "status_of (fst (rate_booking (snd (rate_booking s uid bid n rv)) uid bid n2 rv2)) = 400
       \<and> snd (rate_booking (snd (rate_booking s uid bid n rv)) uid bid n2 rv2)
           = snd (rate_booking s uid bid n rv)
       \<and> (valid_rate n2 rv2 \<longrightarrow>
            fst (rate_booking (snd (rate_booking s uid bid n rv)) uid bid n2 rv2)
              \<in> {Message 400 ''You have already rated this driver'',
                  Message 400 ''You have already rated this passenger''})"
proof -
  from first have valid: "valid_rate n rv"
    by (auto simp: rate_booking_def split: if_splits)
  then have n0: "truthy n" by (rule valid_rate_truthy)
  from first valid obtain b where found: "findById (bookings s) bid = Some b"
    by (auto simp: rate_booking_def split: option.splits)
  from first valid found have completed: "bookingStatus b = ''completed''"
    by (auto simp: rate_booking_def split: if_splits)
  from first valid found completed obtain t where tfound: "findById (trips s) (trip b) = Some t"
    by (auto simp: rate_booking_def split: option.splits)
  show ?thesis
  proof (cases "passenger b = uid")
    case True
    with first valid found completed tfound have nr: "\<not> rated (forDriver b)"
      by (auto simp: rate_booking_def split: if_splits)
    with True valid found completed tfound n0 show ?thesis
      by (simp add: rate_booking_def Let_def findById_save_same rate_user_bookings
          rate_user_trips rated_def)
  next
    case False
    with first valid found completed tfound have dr: "driver t = uid"
      by (auto simp: rate_booking_def split: if_splits)
    with False first valid found completed tfound have nr: "\<not> rated (forPassenger b)"
      by (auto simp: rate_booking_def split: if_splits)
    with False dr valid found completed tfound n0 show ?thesis
      by (simp add: rate_booking_def Let_def findById_save_same rate_user_bookings
          rate_user_trips rated_def)
  qed
qed

text \<open>
  The passenger of \<open>ex_db2\<close> rates the driver 5, then tries to rate the driver 1, as a
  number and as a string.
\<close>

theorem second_rating_rejected_witness:
  "status_of (fst (rate_booking ex_db2 ex_passenger_id ex_booking_id (JNumber 5) None)) = 200
   \<and> rate_booking (snd (rate_booking ex_db2 ex_passenger_id ex_booking_id (JNumber 5) None))
        ex_passenger_id ex_booking_id (JNumber 1) None
       = (Message 400 ''You have already rated this driver'',
          snd (rate_booking ex_db2 ex_passenger_id ex_booking_id (JNumber 5) None))
   \<and> rate_booking (snd (rate_booking ex_db2 ex_passenger_id ex_booking_id (JNumber 5) None))
        ex_passenger_id ex_booking_id (JString ''1'') None
       = (Message 400 ''You have already rated this driver'',
          snd (rate_booking ex_db2 ex_passenger_id ex_booking_id (JNumber 5) None))"
proof -
  have first: "status_of (fst (rate_booking ex_db2 ex_passenger_id ex_booking_id (JNumber 5) None)) = 200"
    by (simp add: ex_rate_number)
  have v: "valid_rate (JNumber 1) None" "valid_rate (JString ''1'') None"
    by (simp_all add: valid_rate_def isInt_1_5_def int_literal_def decimal_def is_digit_def
        digit_val_def)
  have p: "passenger ex_booking2 = ex_passenger_id" by (simp add: ex_booking2_def ex_booking1_def)
  have a: "fst (rate_booking (snd (rate_booking ex_db2 ex_passenger_id ex_booking_id (JNumber 5) None))
        ex_passenger_id ex_booking_id (JNumber 1) None) \<noteq> Message 400 ''You have already rated this passenger''"
    using v(1)
    unfolding ex_rate_number snd_conv
    by (simp add: rate_booking_def findById_def ex_booking2_def ex_booking1_def ex_db2_def
        ex_db1_def ex_trip1_def rated_def truthy_def Let_def)
  have b: "fst (rate_booking (snd (rate_booking ex_db2 ex_passenger_id ex_booking_id (JNumber 5) None))
        ex_passenger_id ex_booking_id (JString ''1'') None) \<noteq> Message 400 ''You have already rated this passenger''"
    using v(2)
    unfolding ex_rate_number snd_conv
    by (simp add: rate_booking_def findById_def ex_booking2_def ex_booking1_def ex_db2_def
        ex_db1_def ex_trip1_def rated_def truthy_def Let_def)
  from second_rating_rejected [OF first, of "JNumber 1" None] v(1) a
  have c: "rate_booking (snd (rate_booking ex_db2 ex_passenger_id ex_booking_id (JNumber 5) None))
        ex_passenger_id ex_booking_id (JNumber 1) None
       = (Message 400 ''You have already rated this driver'',
          snd (rate_booking ex_db2 ex_passenger_id ex_booking_id (JNumber 5) None))"
    by (simp add: prod_eq_iff)
  from second_rating_rejected [OF first, of "JString ''1''" None] v(2) b
  have d: "rate_booking (snd (rate_booking ex_db2 ex_passenger_id ex_booking_id (JNumber 5) None))
        ex_passenger_id ex_booking_id (JString ''1'') None
       = (Message 400 ''You have already rated this driver'',
          snd (rate_booking ex_db2 ex_passenger_id ex_booking_id (JNumber 5) None))"
    by (simp add: prod_eq_iff)
  from first c d show ?thesis by simp
qed

text \<open>
  Two more facts about the rating handler: a request that is not answered with 200 changes
  nothing, and a direction that holds a rating is closed in whatever state it is found.
\<close>

lemma rejected_rating_changes_nothing:
  "status_of (fst (rate_booking s uid bid n rv)) \<noteq> 200 \<Longrightarrow> snd (rate_booking s uid bid n rv) = s"
  by (auto simp: rate_booking_def Let_def split: option.splits if_splits)

lemma rated_direction_is_closed:
  assumes "findById (bookings s) bid = Some b"
      and "(passenger b = uid \<and> rated (forDriver b)) \<or> (passenger b \<noteq> uid \<and> rated (forPassenger b))"
  shows "status_of (fst (rate_booking s uid bid n rv)) \<noteq> 200"
  using assms by (auto simp: rate_booking_def Let_def split: option.splits if_splits)

section \<open>The mirror invariant is not kept\<close>

text \<open>
  C1.  The handlers are run from \<open>ex_db0\<close>: the passenger books two seats, cancels the
  booking, and then reports a failed payment for it.  The invariant holds in the first
  three databases.  The payment handler releases the seats of the cancelled booking a
  second time: the trip ends with \<open>bookedSeats = -2\<close> and \<open>totalEarnings = -200\<close> while
  no booking of the trip is live.
\<close>

theorem double_release_breaks_mirror:
  "snd (create_booking 1000000 ex_booking_id 3821 ex_db0 ex_passenger_id ex_request) = ex_db1
   \<and> mirrored ex_db0 \<and> mirrored ex_db1 \<and> mirrored ex_db_cancelled
   \<and> \<not> mirrored ex_db_released_twice
   \<and> map (\<lambda>(i, t). (bookedSeats t, totalEarnings t)) (trips ex_db_released_twice) = [(- 2, - 200)]
   \<and> live_seats ex_db_released_twice ex_trip_id = 0
   \<and> live_amount ex_db_released_twice ex_trip_id = 0"
proof -
  have m0: "mirrored ex_db0"
    by (simp add: mirrored_def ex_db0_def live_seats_def live_amount_def ex_trip_def)
  have m1: "mirrored ex_db1"
    by (simp add: mirrored_def ex_db1_def live_seats_def live_amount_def live_def ex_trip1_def
        ex_booking1_def)
  have m2: "mirrored ex_db_cancelled"
    by (simp add: mirrored_def ex_db_cancelled_eq live_seats_def live_amount_def live_def
        ex_trip_def ex_booking1_def)
  have m3: "\<not> mirrored ex_db_released_twice"
    by (simp add: mirrored_def ex_db_released_twice_eq live_seats_def live_amount_def live_def
        ex_trip_def ex_booking1_def)
  have c: "map (\<lambda>(i, t). (bookedSeats t, totalEarnings t)) (trips ex_db_released_twice) = [(- 2, - 200)]"
    by (simp add: ex_db_released_twice_eq)
  have l: "live_seats ex_db_released_twice ex_trip_id = 0"
        "live_amount ex_db_released_twice ex_trip_id = 0"
    by (simp_all add: ex_db_released_twice_eq live_seats_def live_amount_def live_def)
  from m0 m1 m2 m3 c l show ?thesis by (simp add: ex_db1_created)
qed

text \<open>
  The OTP handler does not look at \<open>bookingStatus\<close> either: verifying the OTP of the
  cancelled booking makes it \<open>confirmed\<close> again, with two live seats and none booked on
  the trip.
\<close>

lemma verify_after_cancel_breaks_mirror:
  "status_of (fst (verify_otp 1600000 ex_db_cancelled ex_passenger_id ex_booking_id ''4821'')) = 200
   \<and> \<not> mirrored (snd (verify_otp 1600000 ex_db_cancelled ex_passenger_id ex_booking_id ''4821''))
   \<and> live_seats (snd (verify_otp 1600000 ex_db_cancelled ex_passenger_id ex_booking_id ''4821''))
        ex_trip_id = 2
   \<and> map (\<lambda>(i, t). bookedSeats t)
        (trips (snd (verify_otp 1600000 ex_db_cancelled ex_passenger_id ex_booking_id ''4821''))) = [0]"
  by (simp add: verify_otp_def ex_db_cancelled_eq findById_def save_def ex_booking1_def
      otpAge_def Let_def mirrored_def live_seats_def live_amount_def live_def ex_trip_def)

end
